theory Spec2Isabelle
  imports Main "HOL-Library.Finite_Map" "HOL-Library.Word"
begin

unbundle bit_operations_syntax

section \<open>Python values\<close>

text \<open>
  The client moves JSON through untouched: request bodies go in as Python values and
  \<^verbatim>\<open>response.json()\<close> hands a Python value back. A value is one of the seven shapes
  the \<^verbatim>\<open>json\<close> module produces. An \<^verbatim>\<open>int\<close> is unbounded, a \<^verbatim>\<open>float\<close> is the
  bit pattern of its IEEE-754 double, a \<^verbatim>\<open>dict\<close> is a finite map with string keys
  (equality of dicts ignores insertion order, as in Python).
\<close>

datatype pyval =
    PNone
  | PBool bool
  | PInt int
  | PFloat "64 word"
  | PStr string
  | PList "pyval list"
  | PDict "(string, pyval) fmap"

text \<open>
  Truth value testing, as \<^verbatim>\<open>not x\<close> uses it: \<^verbatim>\<open>None\<close>, \<^verbatim>\<open>False\<close>, zero of
  either numeric type (both signed zeros of a double) and empty containers are false.
\<close>

fun truthy :: "pyval \<Rightarrow> bool" where
  "truthy PNone = False"
| "truthy (PBool b) = b"
| "truthy (PInt n) = (n \<noteq> 0)"
| "truthy (PFloat w) = (w AND 0x7FFFFFFFFFFFFFFF \<noteq> 0)"
| "truthy (PStr s) = (s \<noteq> [])"
| "truthy (PList xs) = (xs \<noteq> [])"
| "truthy (PDict d) = (d \<noteq> fmempty)"

section \<open>Exceptions\<close>

text \<open>
  \<^verbatim>\<open>class MirraError(Exception)\<close> of \<^verbatim>\<open>client.py\<close>: the message handed to
  \<^verbatim>\<open>Exception.__init__\<close> and the three attributes. The message, the code and the
  details are whatever value the caller of the constructor passes; \<^verbatim>\<open>status_code\<close> is
  \<^verbatim>\<open>None\<close> or the integer status of the HTTP response.
\<close>

record MirraError =
  message :: pyval
  code :: pyval
  status_code :: "int option"
  details :: pyval

text \<open>
  What a call can raise: a \<^verbatim>\<open>MirraError\<close>, the \<^verbatim>\<open>AttributeError\<close> of a
  \<^verbatim>\<open>.get\<close> on a value that is no dict, the \<^verbatim>\<open>KeyError\<close> of a subscript with a
  missing key.
\<close>

datatype py_exception =
    Raise_MirraError MirraError
  | AttributeError
  | KeyError string

text \<open>\<^verbatim>\<open>d.get(k, default)\<close> on a dict.\<close>

definition dict_get :: "(string, pyval) fmap \<Rightarrow> string \<Rightarrow> pyval \<Rightarrow> pyval" where
  "dict_get d k dflt = (case fmlookup d k of None \<Rightarrow> dflt | Some v \<Rightarrow> v)"

text \<open>
  \<^verbatim>\<open>x.get(k, default)\<close> on any value: only a dict has the method, every other shape
  (\<^verbatim>\<open>None\<close>, \<^verbatim>\<open>bool\<close>, \<^verbatim>\<open>int\<close>, \<^verbatim>\<open>float\<close>, \<^verbatim>\<open>str\<close>, \<^verbatim>\<open>list\<close>) raises
  \<^verbatim>\<open>AttributeError\<close>.
\<close>

fun py_get :: "pyval \<Rightarrow> string \<Rightarrow> pyval \<Rightarrow> py_exception + pyval" where
  "py_get (PDict d) k dflt = Inr (dict_get d k dflt)"
| "py_get PNone k dflt = Inl AttributeError"
| "py_get (PBool b) k dflt = Inl AttributeError"
| "py_get (PInt n) k dflt = Inl AttributeError"
| "py_get (PFloat w) k dflt = Inl AttributeError"
| "py_get (PStr s) k dflt = Inl AttributeError"
| "py_get (PList xs) k dflt = Inl AttributeError"

section \<open>The HTTP session\<close>

text \<open>
  \<^verbatim>\<open>requests\<close> is a library outside the repository. A call of
  \<^verbatim>\<open>session.request(method=, url=, json=, params=)\<close> carries these four keyword
  arguments; an absent body or query is \<^verbatim>\<open>None\<close>.
\<close>

record Request =
  req_method :: string
  req_url :: string
  req_json :: pyval
  req_params :: pyval

text \<open>
  Of the response the client reads \<^verbatim>\<open>status_code\<close> and \<^verbatim>\<open>json()\<close>; the latter
  raises \<^verbatim>\<open>ValueError\<close> on a body that is not JSON, which is \<open>None\<close> here.
\<close>

record Response =
  response_status_code :: int
  response_json :: "pyval option"

text \<open>
  The call returns a response or raises a \<^verbatim>\<open>requests.RequestException\<close>, whose
  \<^verbatim>\<open>str(e)\<close> is the argument.
\<close>

datatype transport_outcome =
    Returns Response
  | RequestException string

text \<open>
  A session holds the headers set on it and its own internal state (connection pool,
  cookie jar) of a type \<open>'w\<close> the client never looks into. The headers the library
  itself puts on a fresh session are the library's and are left out.
\<close>

record 'w Session =
  headers :: "(string \<times> string) list"
  pool :: 'w

text \<open>
  \<^verbatim>\<open>Session.request\<close> is a parameter of the model: from the session's headers, the
  keyword arguments and the internal state it gives the outcome and the next internal
  state.
\<close>

type_synonym 'w transport =
  "(string \<times> string) list \<Rightarrow> Request \<Rightarrow> 'w \<Rightarrow> transport_outcome \<times> 'w"

section \<open>The client\<close>

record 'w MirraSDK =
  api_key :: string
  base_url :: string
  session :: "'w Session"

text \<open>
  A method of the client returns a value or raises, and hands the client object on: the
  exception is on the left, the returned value on the right.
\<close>

type_synonym 'w method_result = "(py_exception + pyval) \<times> 'w MirraSDK"

text \<open>\<^verbatim>\<open>s.rstrip(chars)\<close>: drop every trailing character that occurs in \<open>chars\<close>.\<close>

definition rstrip :: "string \<Rightarrow> string \<Rightarrow> string" where
  "rstrip chars s = rev (dropWhile (\<lambda>c. c \<in> set chars) (rev s))"

definition default_base_url :: string where
  "default_base_url = ''https://api.fxn.world/api/sdk/v1''"

text \<open>
  \<^verbatim>\<open>MirraSDK.__init__(api_key, base_url)\<close>; \<open>w0\<close> is the internal state of the fresh
  \<^verbatim>\<open>requests.Session()\<close>. The seven service objects only hold a reference back to the
  client and have no field of their own.
\<close>

definition MirraSDK_init :: "'w \<Rightarrow> string \<Rightarrow> string \<Rightarrow> 'w MirraSDK" where
  "MirraSDK_init w0 key url =
     \<lparr> api_key = key,
       base_url = rstrip ''/'' url,
       session = \<lparr> headers = [(''Content-Type'', ''application/json''), (''X-API-Key'', key)],
                   pool = w0 \<rparr> \<rparr>"

text \<open>
  Lines 96 to 114 of \<^verbatim>\<open>_request\<close>: parse the body, check for errors, return the data.
  The keyword arguments of the \<^verbatim>\<open>MirraError\<close> are evaluated in the order written, so a
  value under \<^verbatim>\<open>"error"\<close> that is no dict raises at \<^verbatim>\<open>error.get("message", ...)\<close>.
\<close>

definition unwrap_response :: "Response \<Rightarrow> py_exception + pyval" where
  "unwrap_response response =
     (case response_json response of
        None \<Rightarrow>
          Inl (Raise_MirraError
            \<lparr> message = PStr ''Invalid JSON response from API'', code = PNone,
              status_code = Some (response_status_code response), details = PNone \<rparr>)
      | Some result \<Rightarrow>
          (case py_get result ''success'' (PBool False) of
             Inl ex \<Rightarrow> Inl ex
           | Inr success \<Rightarrow>
               if \<not> truthy success \<or> response_status_code response \<ge> 400 then
                 (case py_get result ''error'' (PDict fmempty) of
                    Inl ex \<Rightarrow> Inl ex
                  | Inr err \<Rightarrow>
                      (case py_get err ''message'' (PStr ''Unknown error'') of
                         Inl ex \<Rightarrow> Inl ex
                       | Inr m \<Rightarrow>
                           (case py_get err ''code'' PNone of
                              Inl ex \<Rightarrow> Inl ex
                            | Inr c \<Rightarrow>
                                (case py_get err ''details'' PNone of
                                   Inl ex \<Rightarrow> Inl ex
                                 | Inr d \<Rightarrow>
                                     Inl (Raise_MirraError
                                       \<lparr> message = m, code = c,
                                         status_code = Some (response_status_code response),
                                         details = d \<rparr>)))))
               else py_get result ''data'' PNone))"

text \<open>
  \<^verbatim>\<open>MirraSDK._request(method, path, data, params)\<close>: one call of the session, whose
  \<^verbatim>\<open>RequestException\<close> becomes a \<^verbatim>\<open>MirraError\<close> without status code. The client
  object comes back with the session's internal state as the call left it.
\<close>

definition MirraSDK_request ::
  "'w transport \<Rightarrow> string \<Rightarrow> string \<Rightarrow> pyval \<Rightarrow> pyval \<Rightarrow> 'w MirraSDK \<Rightarrow> 'w method_result" where
  "MirraSDK_request send meth path data params self =
     (let url = base_url self @ path;
          (outcome, w') =
            send (headers (session self))
              \<lparr> req_method = meth, req_url = url, req_json = data, req_params = params \<rparr>
              (pool (session self));
          self' = self\<lparr> session := (session self)\<lparr> pool := w' \<rparr> \<rparr>
      in (case outcome of
            Returns response \<Rightarrow> (unwrap_response response, self')
          | RequestException e \<Rightarrow>
              (Inl (Raise_MirraError
                 \<lparr> message = PStr (''Request failed: '' @ e), code = PNone,
                   status_code = None, details = PNone \<rparr>), self')))"

section \<open>The service facades\<close>

text \<open>
  Each method of the seven services is one call of \<^verbatim>\<open>_request\<close>. A parameter the
  method forwards untouched is any Python value; an \<^verbatim>\<open>id: str\<close> is a string, written
  \<open>ident\<close>. A body or query the method does not pass is the \<^verbatim>\<open>None\<close> that
  \<^verbatim>\<open>_request\<close> has as default.
\<close>

subsection \<open>\<^verbatim>\<open>MemoryService\<close>\<close>

definition MemoryService_create ::
  "'w transport \<Rightarrow> pyval \<Rightarrow> 'w MirraSDK \<Rightarrow> 'w method_result" where
  "MemoryService_create send entity self =
     MirraSDK_request send ''POST'' ''/memory'' entity PNone self"

definition MemoryService_search ::
  "'w transport \<Rightarrow> pyval \<Rightarrow> 'w MirraSDK \<Rightarrow> 'w method_result" where
  "MemoryService_search send query self =
     MirraSDK_request send ''POST'' ''/memory/search'' query PNone self"

definition MemoryService_query ::
  "'w transport \<Rightarrow> pyval \<Rightarrow> 'w MirraSDK \<Rightarrow> 'w method_result" where
  "MemoryService_query send params self =
     MirraSDK_request send ''POST'' ''/memory/query'' params PNone self"

definition MemoryService_find_one ::
  "'w transport \<Rightarrow> string \<Rightarrow> 'w MirraSDK \<Rightarrow> 'w method_result" where
  "MemoryService_find_one send ident self =
     MirraSDK_request send ''POST'' ''/memory/findOne''
       (PDict (fmupd ''id'' (PStr ident) fmempty)) PNone self"

text \<open>
  \<^verbatim>\<open>{"id": id, **updates}\<close> with \<open>updates\<close> a dict: its keys are written after
  \<^verbatim>\<open>"id"\<close>, so an \<^verbatim>\<open>"id"\<close> among them replaces the argument.
\<close>

definition MemoryService_update ::
  "'w transport \<Rightarrow> string \<Rightarrow> (string, pyval) fmap \<Rightarrow> 'w MirraSDK \<Rightarrow> 'w method_result" where
  "MemoryService_update send ident updates self =
     MirraSDK_request send ''POST'' ''/memory/update''
       (PDict (fmupd ''id'' (PStr ident) fmempty ++\<^sub>f updates)) PNone self"

definition MemoryService_delete ::
  "'w transport \<Rightarrow> string \<Rightarrow> 'w MirraSDK \<Rightarrow> 'w method_result" where
  "MemoryService_delete send ident self =
     MirraSDK_request send ''POST'' ''/memory/delete''
       (PDict (fmupd ''id'' (PStr ident) fmempty)) PNone self"

subsection \<open>\<^verbatim>\<open>AIService\<close>\<close>

definition AIService_chat ::
  "'w transport \<Rightarrow> pyval \<Rightarrow> 'w MirraSDK \<Rightarrow> 'w method_result" where
  "AIService_chat send request self =
     MirraSDK_request send ''POST'' ''/ai/chat'' request PNone self"

definition AIService_decide ::
  "'w transport \<Rightarrow> pyval \<Rightarrow> 'w MirraSDK \<Rightarrow> 'w method_result" where
  "AIService_decide send request self =
     MirraSDK_request send ''POST'' ''/ai/decide'' request PNone self"

definition AIService_batch_chat ::
  "'w transport \<Rightarrow> pyval \<Rightarrow> 'w MirraSDK \<Rightarrow> 'w method_result" where
  "AIService_batch_chat send request self =
     MirraSDK_request send ''POST'' ''/ai/batchChat'' request PNone self"

subsection \<open>\<^verbatim>\<open>AgentService\<close>\<close>

definition AgentService_create ::
  "'w transport \<Rightarrow> pyval \<Rightarrow> 'w MirraSDK \<Rightarrow> 'w method_result" where
  "AgentService_create send params self =
     MirraSDK_request send ''POST'' ''/agents'' params PNone self"

definition AgentService_get ::
  "'w transport \<Rightarrow> string \<Rightarrow> 'w MirraSDK \<Rightarrow> 'w method_result" where
  "AgentService_get send ident self =
     MirraSDK_request send ''GET'' (''/agents/'' @ ident) PNone PNone self"

definition AgentService_list ::
  "'w transport \<Rightarrow> 'w MirraSDK \<Rightarrow> 'w method_result" where
  "AgentService_list send self =
     MirraSDK_request send ''GET'' ''/agents'' PNone PNone self"

definition AgentService_update ::
  "'w transport \<Rightarrow> string \<Rightarrow> pyval \<Rightarrow> 'w MirraSDK \<Rightarrow> 'w method_result" where
  "AgentService_update send ident params self =
     MirraSDK_request send ''PATCH'' (''/agents/'' @ ident) params PNone self"

definition AgentService_delete ::
  "'w transport \<Rightarrow> string \<Rightarrow> 'w MirraSDK \<Rightarrow> 'w method_result" where
  "AgentService_delete send ident self =
     MirraSDK_request send ''DELETE'' (''/agents/'' @ ident) PNone PNone self"

subsection \<open>\<^verbatim>\<open>ScriptService\<close>\<close>

definition ScriptService_create ::
  "'w transport \<Rightarrow> pyval \<Rightarrow> 'w MirraSDK \<Rightarrow> 'w method_result" where
  "ScriptService_create send params self =
     MirraSDK_request send ''POST'' ''/scripts'' params PNone self"

definition ScriptService_get ::
  "'w transport \<Rightarrow> string \<Rightarrow> 'w MirraSDK \<Rightarrow> 'w method_result" where
  "ScriptService_get send ident self =
     MirraSDK_request send ''GET'' (''/scripts/'' @ ident) PNone PNone self"

definition ScriptService_list ::
  "'w transport \<Rightarrow> 'w MirraSDK \<Rightarrow> 'w method_result" where
  "ScriptService_list send self =
     MirraSDK_request send ''GET'' ''/scripts'' PNone PNone self"

definition ScriptService_update ::
  "'w transport \<Rightarrow> string \<Rightarrow> pyval \<Rightarrow> 'w MirraSDK \<Rightarrow> 'w method_result" where
  "ScriptService_update send ident params self =
     MirraSDK_request send ''PATCH'' (''/scripts/'' @ ident) params PNone self"

definition ScriptService_delete ::
  "'w transport \<Rightarrow> string \<Rightarrow> 'w MirraSDK \<Rightarrow> 'w method_result" where
  "ScriptService_delete send ident self =
     MirraSDK_request send ''DELETE'' (''/scripts/'' @ ident) PNone PNone self"

definition ScriptService_deploy ::
  "'w transport \<Rightarrow> string \<Rightarrow> 'w MirraSDK \<Rightarrow> 'w method_result" where
  "ScriptService_deploy send ident self =
     MirraSDK_request send ''POST'' (''/scripts/'' @ ident @ ''/deploy'') PNone PNone self"

text \<open>
  \<^verbatim>\<open>InvokeScriptParams\<close> of \<^verbatim>\<open>types.py\<close> is a \<^verbatim>\<open>TypedDict\<close> with
  \<^verbatim>\<open>total=False\<close>: either key may be missing (\<open>None\<close> here), \<^verbatim>\<open>scriptId\<close> is a
  \<^verbatim>\<open>str\<close>, \<^verbatim>\<open>payload\<close> any value. The method reads these two keys and no other.
\<close>

record InvokeScriptParams =
  scriptId :: "string option"
  payload :: "pyval option"

text \<open>
  \<^verbatim>\<open>params["scriptId"]\<close> raises \<^verbatim>\<open>KeyError\<close> on a missing key, before anything is
  sent; \<^verbatim>\<open>params.get("payload")\<close> is \<^verbatim>\<open>None\<close> on a missing key.
\<close>

definition ScriptService_invoke ::
  "'w transport \<Rightarrow> InvokeScriptParams \<Rightarrow> 'w MirraSDK \<Rightarrow> 'w method_result" where
  "ScriptService_invoke send params self =
     (case scriptId params of
        None \<Rightarrow> (Inl (KeyError ''scriptId''), self)
      | Some script_id \<Rightarrow>
          (let payload_value = (case payload params of None \<Rightarrow> PNone | Some v \<Rightarrow> v)
           in MirraSDK_request send ''POST'' (''/scripts/'' @ script_id @ ''/invoke'')
                (PDict (fmupd ''payload'' payload_value fmempty)) PNone self))"

subsection \<open>\<^verbatim>\<open>ResourceService\<close>\<close>

definition ResourceService_call ::
  "'w transport \<Rightarrow> pyval \<Rightarrow> 'w MirraSDK \<Rightarrow> 'w method_result" where
  "ResourceService_call send params self =
     MirraSDK_request send ''POST'' ''/resources/call'' params PNone self"

definition ResourceService_list ::
  "'w transport \<Rightarrow> 'w MirraSDK \<Rightarrow> 'w method_result" where
  "ResourceService_list send self =
     MirraSDK_request send ''GET'' ''/resources'' PNone PNone self"

definition ResourceService_get ::
  "'w transport \<Rightarrow> string \<Rightarrow> 'w MirraSDK \<Rightarrow> 'w method_result" where
  "ResourceService_get send ident self =
     MirraSDK_request send ''GET'' (''/resources/'' @ ident) PNone PNone self"

subsection \<open>\<^verbatim>\<open>TemplateService\<close>\<close>

definition TemplateService_list ::
  "'w transport \<Rightarrow> 'w MirraSDK \<Rightarrow> 'w method_result" where
  "TemplateService_list send self =
     MirraSDK_request send ''GET'' ''/templates'' PNone PNone self"

definition TemplateService_get ::
  "'w transport \<Rightarrow> string \<Rightarrow> 'w MirraSDK \<Rightarrow> 'w method_result" where
  "TemplateService_get send ident self =
     MirraSDK_request send ''GET'' (''/templates/'' @ ident) PNone PNone self"

definition TemplateService_install ::
  "'w transport \<Rightarrow> string \<Rightarrow> 'w MirraSDK \<Rightarrow> 'w method_result" where
  "TemplateService_install send ident self =
     MirraSDK_request send ''POST'' (''/templates/'' @ ident @ ''/install'') PNone PNone self"

subsection \<open>\<^verbatim>\<open>MarketplaceService\<close>\<close>

text \<open>\<^verbatim>\<open>browse(filters=None)\<close> forwards its argument as the query, \<^verbatim>\<open>None\<close> included.\<close>

definition MarketplaceService_browse ::
  "'w transport \<Rightarrow> pyval \<Rightarrow> 'w MirraSDK \<Rightarrow> 'w method_result" where
  "MarketplaceService_browse send filters self =
     MirraSDK_request send ''GET'' ''/marketplace'' PNone filters self"

definition MarketplaceService_search ::
  "'w transport \<Rightarrow> string \<Rightarrow> 'w MirraSDK \<Rightarrow> 'w method_result" where
  "MarketplaceService_search send query self =
     MirraSDK_request send ''GET'' ''/marketplace/search'' PNone
       (PDict (fmupd ''q'' (PStr query) fmempty)) self"

section \<open>Calls of the facade\<close>

text \<open>
  One constructor for each of the 29 public methods, with the arguments of the call, so
  that a statement about every facade method is a statement about every value of this
  type.
\<close>

datatype facade_call =
    Memory_create pyval
  | Memory_search pyval
  | Memory_query pyval
  | Memory_find_one string
  | Memory_update string "(string, pyval) fmap"
  | Memory_delete string
  | AI_chat pyval
  | AI_decide pyval
  | AI_batch_chat pyval
  | Agent_create pyval
  | Agent_get string
  | Agent_list
  | Agent_update string pyval
  | Agent_delete string
  | Script_create pyval
  | Script_get string
  | Script_list
  | Script_update string pyval
  | Script_delete string
  | Script_deploy string
  | Script_invoke InvokeScriptParams
  | Resource_call pyval
  | Resource_list
  | Resource_get string
  | Template_list
  | Template_get string
  | Template_install string
  | Marketplace_browse pyval
  | Marketplace_search string

fun facade ::
  "'w transport \<Rightarrow> facade_call \<Rightarrow> 'w MirraSDK \<Rightarrow> 'w method_result" where
  "facade send (Memory_create a) self = MemoryService_create send a self"
| "facade send (Memory_search a) self = MemoryService_search send a self"
| "facade send (Memory_query a) self = MemoryService_query send a self"
| "facade send (Memory_find_one a) self = MemoryService_find_one send a self"
| "facade send (Memory_update a b) self = MemoryService_update send a b self"
| "facade send (Memory_delete a) self = MemoryService_delete send a self"
| "facade send (AI_chat a) self = AIService_chat send a self"
| "facade send (AI_decide a) self = AIService_decide send a self"
| "facade send (AI_batch_chat a) self = AIService_batch_chat send a self"
| "facade send (Agent_create a) self = AgentService_create send a self"
| "facade send (Agent_get a) self = AgentService_get send a self"
| "facade send Agent_list self = AgentService_list send self"
| "facade send (Agent_update a b) self = AgentService_update send a b self"
| "facade send (Agent_delete a) self = AgentService_delete send a self"
| "facade send (Script_create a) self = ScriptService_create send a self"
| "facade send (Script_get a) self = ScriptService_get send a self"
| "facade send Script_list self = ScriptService_list send self"
| "facade send (Script_update a b) self = ScriptService_update send a b self"
| "facade send (Script_delete a) self = ScriptService_delete send a self"
| "facade send (Script_deploy a) self = ScriptService_deploy send a self"
| "facade send (Script_invoke a) self = ScriptService_invoke send a self"
| "facade send (Resource_call a) self = ResourceService_call send a self"
| "facade send Resource_list self = ResourceService_list send self"
| "facade send (Resource_get a) self = ResourceService_get send a self"
| "facade send Template_list self = TemplateService_list send self"
| "facade send (Template_get a) self = TemplateService_get send a self"
| "facade send (Template_install a) self = TemplateService_install send a self"
| "facade send (Marketplace_browse a) self = MarketplaceService_browse send a self"
| "facade send (Marketplace_search a) self = MarketplaceService_search send a self"

text \<open>
  The calls that get as far as the session: every one but a script invocation whose
  parameters lack \<^verbatim>\<open>scriptId\<close>.
\<close>

definition reaches_transport :: "facade_call \<Rightarrow> bool" where
  "reaches_transport fc =
     (case fc of Script_invoke params \<Rightarrow> scriptId params \<noteq> None | _ \<Rightarrow> True)"

section \<open>A recording transport\<close>

text \<open>
  The mocked session of a test: its internal state is the list of calls made so far,
  each with the session headers it went out with, and a function \<open>respond\<close> picks the
  outcome from that history and the call.
\<close>

type_synonym call_log = "((string \<times> string) list \<times> Request) list"

definition recording_transport ::
  "(call_log \<Rightarrow> Request \<Rightarrow> transport_outcome) \<Rightarrow> call_log transport" where
  "recording_transport respond hs req log = (respond log req, log @ [(hs, req)])"

text \<open>
  A client's life after construction is a sequence of facade calls, each on the client
  as the one before left it, whatever each returned or raised.
\<close>

definition after_calls :: "'w transport \<Rightarrow> facade_call list \<Rightarrow> 'w MirraSDK \<Rightarrow> 'w MirraSDK" where
  "after_calls send fcs self = foldl (\<lambda>s fc. snd (facade send fc s)) self fcs"

section \<open>Facts about the transport\<close>

lemmas facade_method_defs =
  MemoryService_create_def MemoryService_search_def MemoryService_query_def
  MemoryService_find_one_def MemoryService_update_def MemoryService_delete_def
  AIService_chat_def AIService_decide_def AIService_batch_chat_def
  AgentService_create_def AgentService_get_def AgentService_list_def
  AgentService_update_def AgentService_delete_def
  ScriptService_create_def ScriptService_get_def ScriptService_list_def
  ScriptService_update_def ScriptService_delete_def ScriptService_deploy_def
  ResourceService_call_def ResourceService_list_def ResourceService_get_def
  TemplateService_list_def TemplateService_get_def TemplateService_install_def
  MarketplaceService_browse_def MarketplaceService_search_def

text \<open>
  Every facade call that gets to the session is one \<^verbatim>\<open>_request\<close>, whose four arguments
  come from the call alone.
\<close>

lemma facade_is_request:
  assumes "reaches_transport fc"
  shows "\<exists>meth path data params. \<forall>send self.
           facade send fc (self :: 'w MirraSDK) = MirraSDK_request send meth path data params self"
proof (cases fc)
  case (Script_invoke p)
  with assms obtain s where "scriptId p = Some s"
    by (auto simp: reaches_transport_def)
  with Script_invoke show ?thesis
    by (simp add: ScriptService_invoke_def Let_def) blast
qed (simp_all add: facade_method_defs, blast+)

lemma request_fst:
  "fst (MirraSDK_request send meth path data params self) =
     (case fst (send (headers (session self))
              \<lparr> req_method = meth, req_url = base_url self @ path,
                req_json = data, req_params = params \<rparr>
              (pool (session self))) of
        Returns response \<Rightarrow> unwrap_response response
      | RequestException e \<Rightarrow>
          Inl (Raise_MirraError
             \<lparr> message = PStr (''Request failed: '' @ e), code = PNone,
               status_code = None, details = PNone \<rparr>))"
  by (simp add: MirraSDK_request_def Let_def split: prod.splits transport_outcome.splits)

lemma request_snd:
  "snd (MirraSDK_request send meth path data params self) =
     self\<lparr> session := (session self)\<lparr> pool :=
       snd (send (headers (session self))
              \<lparr> req_method = meth, req_url = base_url self @ path,
                req_json = data, req_params = params \<rparr>
              (pool (session self))) \<rparr> \<rparr>"
  by (simp add: MirraSDK_request_def Let_def split: prod.splits transport_outcome.splits)

text \<open>With a session that answers every call alike, the answer decides the result.\<close>

lemma facade_fst:
  assumes "reaches_transport fc"
    and "\<And>hs req w. fst (send hs req w) = outcome"
  shows "fst (facade send fc self) =
     (case outcome of
        Returns response \<Rightarrow> unwrap_response response
      | RequestException e \<Rightarrow>
          Inl (Raise_MirraError
             \<lparr> message = PStr (''Request failed: '' @ e), code = PNone,
               status_code = None, details = PNone \<rparr>))"
proof -
  from facade_is_request [OF assms(1)] obtain meth path data params
    where "facade send fc self = MirraSDK_request send meth path data params self"
    by blast
  then show ?thesis
    by (simp add: request_fst assms(2))
qed

section \<open>Facts about unwrapping the envelope\<close>

lemma unwrap_ok:
  assumes "response_json r = Some (PDict env)"
    and "response_status_code r < 400"
    and "fmlookup env ''success'' = Some v" "truthy v"
  shows "unwrap_response r = Inr (case fmlookup env ''data'' of None \<Rightarrow> PNone | Some x \<Rightarrow> x)"
  using assms by (simp add: unwrap_response_def dict_get_def)

lemma unwrap_error:
  assumes "response_json r = Some (PDict env)"
    and "\<not> truthy (case fmlookup env ''success'' of None \<Rightarrow> PBool False | Some v \<Rightarrow> v)
         \<or> response_status_code r \<ge> 400"
    and "fmlookup env ''error'' = Some (PDict err)
         \<or> fmlookup env ''error'' = None \<and> err = fmempty"
  shows "unwrap_response r =
     Inl (Raise_MirraError
       \<lparr> message = (case fmlookup err ''message'' of
                      None \<Rightarrow> PStr ''Unknown error'' | Some m \<Rightarrow> m),
         code = (case fmlookup err ''code'' of None \<Rightarrow> PNone | Some c \<Rightarrow> c),
         status_code = Some (response_status_code r),
         details = (case fmlookup err ''details'' of None \<Rightarrow> PNone | Some d \<Rightarrow> d) \<rparr>)"
  using assms by (auto simp add: unwrap_response_def dict_get_def)

lemma unwrap_not_json:
  "response_json r = None \<Longrightarrow> unwrap_response r =
     Inl (Raise_MirraError
       \<lparr> message = PStr ''Invalid JSON response from API'', code = PNone,
         status_code = Some (response_status_code r), details = PNone \<rparr>)"
  by (simp add: unwrap_response_def)

lemma py_get_not_dict: "(\<nexists>d. v = PDict d) \<Longrightarrow> py_get v k dflt = Inl AttributeError"
  by (cases v) simp_all

lemma unwrap_body_not_dict:
  "response_json r = Some body \<Longrightarrow> (\<nexists>d. body = PDict d) \<Longrightarrow>
     unwrap_response r = Inl AttributeError"
  by (simp add: unwrap_response_def py_get_not_dict)

lemma unwrap_error_not_dict:
  assumes "response_json r = Some (PDict env)"
    and "\<not> truthy (case fmlookup env ''success'' of None \<Rightarrow> PBool False | Some v \<Rightarrow> v)
         \<or> response_status_code r \<ge> 400"
    and "fmlookup env ''error'' = Some v" "\<nexists>d. v = PDict d"
  shows "unwrap_response r = Inl AttributeError"
  using assms by (auto simp add: unwrap_response_def dict_get_def py_get_not_dict)

section \<open>The claims\<close>

text \<open>
  C1. For every facade method: when the session returns a response with a status below
  400 whose body is a JSON object with \<^verbatim>\<open>"success"\<close> equal to true, the method returns
  the value under \<^verbatim>\<open>"data"\<close> as it came, and \<^verbatim>\<open>None\<close> when the object has no such key.
\<close>

theorem facade_returns_data:
  assumes "reaches_transport fc"
    and "\<And>hs req w. fst (send hs req w) =
           Returns \<lparr> response_status_code = st, response_json = Some (PDict env) \<rparr>"
    and "st < 400"
    and "fmlookup env ''success'' = Some (PBool True)"
  shows "fst (facade send fc self) =
           Inr (case fmlookup env ''data'' of None \<Rightarrow> PNone | Some x \<Rightarrow> x)"
proof -
  have "unwrap_response \<lparr> response_status_code = st, response_json = Some (PDict env) \<rparr> =
          Inr (case fmlookup env ''data'' of None \<Rightarrow> PNone | Some x \<Rightarrow> x)"
    using assms(3,4) by (intro unwrap_ok [where v = "PBool True"]) simp_all
  with facade_fst [OF assms(1,2)] show ?thesis
    by simp
qed

theorem facade_returns_data_witness:
  "reaches_transport (AI_chat (PDict (fmap_of_list [(''messages'', PList [])])))
   \<and> (200 :: int) < 400
   \<and> fst (facade
        (\<lambda>hs req w. (Returns \<lparr> response_status_code = 200, response_json = Some (PDict
            (fmap_of_list [(''success'', PBool True), (''data'', PStr ''hello'')])) \<rparr>, w))
        (AI_chat (PDict (fmap_of_list [(''messages'', PList [])])))
        (MirraSDK_init () ''key'' default_base_url)) = Inr (PStr ''hello'')
   \<and> fst (facade
        (\<lambda>hs req w. (Returns \<lparr> response_status_code = 200, response_json = Some (PDict
            (fmap_of_list [(''success'', PBool True)])) \<rparr>, w))
        (Agent_delete ''a1'')
        (MirraSDK_init () ''key'' default_base_url)) = Inr PNone"
  using
    facade_returns_data [of "AI_chat (PDict (fmap_of_list [(''messages'', PList [])]))"
      "\<lambda>hs req w. (Returns \<lparr> response_status_code = 200, response_json = Some (PDict
            (fmap_of_list [(''success'', PBool True), (''data'', PStr ''hello'')])) \<rparr>, w)"
      200 "fmap_of_list [(''success'', PBool True), (''data'', PStr ''hello'')]"
      "MirraSDK_init () ''key'' default_base_url"]
    facade_returns_data [of "Agent_delete ''a1''"
      "\<lambda>hs req w. (Returns \<lparr> response_status_code = 200, response_json = Some (PDict
            (fmap_of_list [(''success'', PBool True)])) \<rparr>, w)"
      200 "fmap_of_list [(''success'', PBool True)]"
      "MirraSDK_init () ''key'' default_base_url"]
  by (simp add: reaches_transport_def)

text \<open>
  C2. The claim is that, for every facade method, a JSON object body in which
  \<^verbatim>\<open>"success"\<close> is false, or a status of 400 or more, makes the call raise a
  \<^verbatim>\<open>MirraError\<close> with the message, code and details of the envelope's \<^verbatim>\<open>"error"\<close> object,
  the HTTP status as status code and \<^verbatim>\<open>"Unknown error"\<close> as default message. Under exactly
  these conditions the code does so when \<^verbatim>\<open>"error"\<close> is missing (as for an empty object)
  and when it is a JSON object; when \<^verbatim>\<open>"error"\<close> is present and no object, null included,
  it raises the \<^verbatim>\<open>AttributeError\<close> of \<^verbatim>\<open>error.get\<close> instead.
\<close>

theorem facade_failure_outcome:
  assumes "reaches_transport fc"
    and "\<And>hs req w. fst (send hs req w) =
           Returns \<lparr> response_status_code = st, response_json = Some (PDict env) \<rparr>"
    and "fmlookup env ''success'' = Some (PBool False) \<or> st \<ge> 400"
  shows "(fmlookup env ''error'' = None \<longrightarrow>
            fst (facade send fc self) =
              Inl (Raise_MirraError
                \<lparr> message = PStr ''Unknown error'', code = PNone,
                  status_code = Some st, details = PNone \<rparr>))
       \<and> (\<forall>err. fmlookup env ''error'' = Some (PDict err) \<longrightarrow>
            fst (facade send fc self) =
              Inl (Raise_MirraError
                \<lparr> message = (case fmlookup err ''message'' of
                               None \<Rightarrow> PStr ''Unknown error'' | Some m \<Rightarrow> m),
                  code = (case fmlookup err ''code'' of None \<Rightarrow> PNone | Some c \<Rightarrow> c),
                  status_code = Some st,
                  details = (case fmlookup err ''details'' of
                               None \<Rightarrow> PNone | Some d \<Rightarrow> d) \<rparr>))
       \<and> (\<forall>v. fmlookup env ''error'' = Some v \<and> (\<nexists>d. v = PDict d) \<longrightarrow>
            fst (facade send fc self) = Inl AttributeError)"
proof -
  let ?r = "\<lparr> response_status_code = st, response_json = Some (PDict env) \<rparr>"
  have result: "fst (facade send fc self) = unwrap_response ?r"
    using facade_fst [OF assms(1,2)] by simp
  have failing:
    "\<not> truthy (case fmlookup env ''success'' of None \<Rightarrow> PBool False | Some v \<Rightarrow> v)
     \<or> response_status_code ?r \<ge> 400"
    using assms(3) by auto
  have absent: "unwrap_response ?r =
      Inl (Raise_MirraError
        \<lparr> message = PStr ''Unknown error'', code = PNone,
          status_code = Some st, details = PNone \<rparr>)"
    if "fmlookup env ''error'' = None"
    using unwrap_error [of ?r env fmempty] failing that by simp
  have object: "unwrap_response ?r =
      Inl (Raise_MirraError
        \<lparr> message = (case fmlookup err ''message'' of
                       None \<Rightarrow> PStr ''Unknown error'' | Some m \<Rightarrow> m),
          code = (case fmlookup err ''code'' of None \<Rightarrow> PNone | Some c \<Rightarrow> c),
          status_code = Some st,
          details = (case fmlookup err ''details'' of None \<Rightarrow> PNone | Some d \<Rightarrow> d) \<rparr>)"
    if "fmlookup env ''error'' = Some (PDict err)" for err
    using unwrap_error [of ?r env err] failing that by simp
  have other: "unwrap_response ?r = Inl AttributeError"
    if "fmlookup env ''error'' = Some v" "\<nexists>d. v = PDict d" for v
    using unwrap_error_not_dict [of ?r env v] failing that by simp
  from absent object other show ?thesis
    unfolding result by blast
qed

theorem facade_failure_outcome_witness:
  "reaches_transport (Memory_delete ''m1'')
   \<and> fst (facade
        (\<lambda>hs req w. (Returns \<lparr> response_status_code = 400, response_json = Some (PDict
            (fmap_of_list [(''success'', PBool False), (''error'', PNone)])) \<rparr>, w))
        (Memory_delete ''m1'')
        (MirraSDK_init () ''key'' default_base_url)) = Inl AttributeError
   \<and> fst (facade
        (\<lambda>hs req w. (Returns \<lparr> response_status_code = 200, response_json = Some (PDict
            (fmap_of_list [(''success'', PBool False),
               (''error'', PDict (fmap_of_list
                  [(''message'', PStr ''m''), (''code'', PStr ''c'')]))])) \<rparr>, w))
        (Memory_delete ''m1'')
        (MirraSDK_init () ''key'' default_base_url)) =
      Inl (Raise_MirraError \<lparr> message = PStr ''m'', code = PStr ''c'',
             status_code = Some 200, details = PNone \<rparr>)
   \<and> fst (facade
        (\<lambda>hs req w. (Returns \<lparr> response_status_code = 500, response_json = Some (PDict
            (fmap_of_list [(''success'', PBool True), (''data'', PInt 1)])) \<rparr>, w))
        (Memory_delete ''m1'')
        (MirraSDK_init () ''key'' default_base_url)) =
      Inl (Raise_MirraError \<lparr> message = PStr ''Unknown error'', code = PNone,
             status_code = Some 500, details = PNone \<rparr>)"
  using
    facade_failure_outcome [of "Memory_delete ''m1''"
      "\<lambda>hs req w. (Returns \<lparr> response_status_code = 400, response_json = Some (PDict
            (fmap_of_list [(''success'', PBool False), (''error'', PNone)])) \<rparr>, w)"
      400 "fmap_of_list [(''success'', PBool False), (''error'', PNone)]"
      "MirraSDK_init () ''key'' default_base_url"]
    facade_failure_outcome [of "Memory_delete ''m1''"
      "\<lambda>hs req w. (Returns \<lparr> response_status_code = 200, response_json = Some (PDict
            (fmap_of_list [(''success'', PBool False),
               (''error'', PDict (fmap_of_list
                  [(''message'', PStr ''m''), (''code'', PStr ''c'')]))])) \<rparr>, w)"
      200 "fmap_of_list [(''success'', PBool False),
               (''error'', PDict (fmap_of_list
                  [(''message'', PStr ''m''), (''code'', PStr ''c'')]))]"
      "MirraSDK_init () ''key'' default_base_url"]
    facade_failure_outcome [of "Memory_delete ''m1''"
      "\<lambda>hs req w. (Returns \<lparr> response_status_code = 500, response_json = Some (PDict
            (fmap_of_list [(''success'', PBool True), (''data'', PInt 1)])) \<rparr>, w)"
      500 "fmap_of_list [(''success'', PBool True), (''data'', PInt 1)]"
      "MirraSDK_init () ''key'' default_base_url"]
  by (simp add: reaches_transport_def)

text \<open>
  C3. The claim is that every failure of every facade method surfaces as a \<^verbatim>\<open>MirraError\<close>,
  also for a body that is JSON but no object and for an envelope whose \<^verbatim>\<open>"error"\<close> is null.
  The code does otherwise: on a body that is no JSON object, and on a failing envelope whose
  \<^verbatim>\<open>"error"\<close> is present but no object, every facade method raises the
  \<^verbatim>\<open>AttributeError\<close> of the \<^verbatim>\<open>.get\<close> it calls on that value.
\<close>

theorem facade_raises_attribute_error:
  assumes "reaches_transport fc"
    and "\<And>hs req w. fst (send hs req w) =
           Returns \<lparr> response_status_code = st, response_json = Some body \<rparr>"
    and "(\<nexists>d. body = PDict d)
         \<or> (\<exists>env v. body = PDict env
               \<and> (\<not> truthy (case fmlookup env ''success'' of None \<Rightarrow> PBool False | Some s \<Rightarrow> s)
                    \<or> st \<ge> 400)
               \<and> fmlookup env ''error'' = Some v \<and> (\<nexists>d. v = PDict d))"
  shows "fst (facade send fc self) = Inl AttributeError"
proof -
  let ?r = "\<lparr> response_status_code = st, response_json = Some body \<rparr>"
  from assms(3) have "unwrap_response ?r = Inl AttributeError"
  proof
    assume "\<nexists>d. body = PDict d"
    then show ?thesis
      by (intro unwrap_body_not_dict [where body = body]) simp_all
  next
    assume "\<exists>env v. body = PDict env
               \<and> (\<not> truthy (case fmlookup env ''success'' of None \<Rightarrow> PBool False | Some s \<Rightarrow> s)
                    \<or> st \<ge> 400)
               \<and> fmlookup env ''error'' = Some v \<and> (\<nexists>d. v = PDict d)"
    then obtain env v where body: "body = PDict env"
      and failing: "\<not> truthy (case fmlookup env ''success'' of None \<Rightarrow> PBool False | Some s \<Rightarrow> s)
                    \<or> st \<ge> 400"
      and err: "fmlookup env ''error'' = Some v" "\<nexists>d. v = PDict d"
      by blast
    show ?thesis
      by (rule unwrap_error_not_dict [where env = env and v = v])
         (use body failing err in simp_all)
  qed
  with facade_fst [OF assms(1,2)] show ?thesis
    by simp
qed

theorem facade_raises_attribute_error_witness:
  "fst (facade
        (\<lambda>hs req w. (Returns \<lparr> response_status_code = 400, response_json = Some (PDict
            (fmap_of_list [(''success'', PBool False), (''error'', PNone)])) \<rparr>, w))
        Agent_list
        (MirraSDK_init () ''key'' default_base_url)) = Inl AttributeError
   \<and> fst (facade
        (\<lambda>hs req w. (Returns \<lparr> response_status_code = 200,
            response_json = Some (PList []) \<rparr>, w))
        Agent_list
        (MirraSDK_init () ''key'' default_base_url)) = Inl AttributeError"
  using
    facade_raises_attribute_error [of Agent_list
      "\<lambda>hs req w. (Returns \<lparr> response_status_code = 400, response_json = Some (PDict
            (fmap_of_list [(''success'', PBool False), (''error'', PNone)])) \<rparr>, w)"
      400 "PDict (fmap_of_list [(''success'', PBool False), (''error'', PNone)])"
      "MirraSDK_init () ''key'' default_base_url"]
    facade_raises_attribute_error [of Agent_list
      "\<lambda>hs req w. (Returns \<lparr> response_status_code = 200,
            response_json = Some (PList []) \<rparr>, w)"
      200 "PList []"
      "MirraSDK_init () ''key'' default_base_url"]
  by (simp add: reaches_transport_def)

text \<open>
  C4. For every facade method: when the response arrives and its body is not JSON, the call
  raises the \<^verbatim>\<open>MirraError\<close> for an invalid response, which carries the status code of the
  response (404 for a 404 with a malformed body).
\<close>

theorem facade_invalid_json:
  assumes "reaches_transport fc"
    and "\<And>hs req w. fst (send hs req w) =
           Returns \<lparr> response_status_code = st, response_json = None \<rparr>"
  shows "fst (facade send fc self) =
     Inl (Raise_MirraError
       \<lparr> message = PStr ''Invalid JSON response from API'', code = PNone,
         status_code = Some st, details = PNone \<rparr>)"
  using facade_fst [OF assms] by (simp add: unwrap_not_json)

theorem facade_invalid_json_witness:
  "reaches_transport (Agent_get ''a1'')
   \<and> fst (facade
        (\<lambda>hs req w. (Returns \<lparr> response_status_code = 404, response_json = None \<rparr>, w))
        (Agent_get ''a1'')
        (MirraSDK_init () ''key'' default_base_url)) =
      Inl (Raise_MirraError
        \<lparr> message = PStr ''Invalid JSON response from API'', code = PNone,
          status_code = Some 404, details = PNone \<rparr>)"
  using
    facade_invalid_json [of "Agent_get ''a1''"
      "\<lambda>hs req w. (Returns \<lparr> response_status_code = 404, response_json = None \<rparr>, w)"
      404 "MirraSDK_init () ''key'' default_base_url"]
  by (simp add: reaches_transport_def)

text \<open>
  C9. The claim is that, for every facade method, a JSON object body without the key
  \<^verbatim>\<open>"success"\<close> is a failure at any status, 200 with a \<^verbatim>\<open>"data"\<close> field included: the call
  raises a \<^verbatim>\<open>MirraError\<close>, with the message \<^verbatim>\<open>"Unknown error"\<close> when there is no error
  object, and does not return the data. The code never returns the data on such a body, and
  raises that \<^verbatim>\<open>MirraError\<close> when \<^verbatim>\<open>"error"\<close> is missing or a JSON object; when
  \<^verbatim>\<open>"error"\<close> is present and no object, null included, it raises the
  \<^verbatim>\<open>AttributeError\<close> of \<^verbatim>\<open>error.get\<close> instead.
\<close>

theorem facade_missing_success_outcome:
  assumes "reaches_transport fc"
    and "\<And>hs req w. fst (send hs req w) =
           Returns \<lparr> response_status_code = st, response_json = Some (PDict env) \<rparr>"
    and "fmlookup env ''success'' = None"
  shows "(\<forall>x. fst (facade send fc self) \<noteq> Inr x)
       \<and> (fmlookup env ''error'' = None \<longrightarrow>
            fst (facade send fc self) =
              Inl (Raise_MirraError
                \<lparr> message = PStr ''Unknown error'', code = PNone,
                  status_code = Some st, details = PNone \<rparr>))
       \<and> (\<forall>err. fmlookup env ''error'' = Some (PDict err) \<longrightarrow>
            fst (facade send fc self) =
              Inl (Raise_MirraError
                \<lparr> message = (case fmlookup err ''message'' of
                               None \<Rightarrow> PStr ''Unknown error'' | Some m \<Rightarrow> m),
                  code = (case fmlookup err ''code'' of None \<Rightarrow> PNone | Some c \<Rightarrow> c),
                  status_code = Some st,
                  details = (case fmlookup err ''details'' of
                               None \<Rightarrow> PNone | Some d \<Rightarrow> d) \<rparr>))
       \<and> (\<forall>v. fmlookup env ''error'' = Some v \<and> (\<nexists>d. v = PDict d) \<longrightarrow>
            fst (facade send fc self) = Inl AttributeError)"
proof -
  let ?r = "\<lparr> response_status_code = st, response_json = Some (PDict env) \<rparr>"
  have result: "fst (facade send fc self) = unwrap_response ?r"
    using facade_fst [OF assms(1,2)] by simp
  have failing:
    "\<not> truthy (case fmlookup env ''success'' of None \<Rightarrow> PBool False | Some v \<Rightarrow> v)
     \<or> response_status_code ?r \<ge> 400"
    using assms(3) by simp
  have absent: "unwrap_response ?r =
      Inl (Raise_MirraError
        \<lparr> message = PStr ''Unknown error'', code = PNone,
          status_code = Some st, details = PNone \<rparr>)"
    if "fmlookup env ''error'' = None"
    using unwrap_error [of ?r env fmempty] failing that by simp
  have object: "unwrap_response ?r =
      Inl (Raise_MirraError
        \<lparr> message = (case fmlookup err ''message'' of
                       None \<Rightarrow> PStr ''Unknown error'' | Some m \<Rightarrow> m),
          code = (case fmlookup err ''code'' of None \<Rightarrow> PNone | Some c \<Rightarrow> c),
          status_code = Some st,
          details = (case fmlookup err ''details'' of None \<Rightarrow> PNone | Some d \<Rightarrow> d) \<rparr>)"
    if "fmlookup env ''error'' = Some (PDict err)" for err
    using unwrap_error [of ?r env err] failing that by simp
  have other: "unwrap_response ?r = Inl AttributeError"
    if "fmlookup env ''error'' = Some v" "\<nexists>d. v = PDict d" for v
    using unwrap_error_not_dict [of ?r env v] failing that by simp
  have "unwrap_response ?r \<noteq> Inr x" for x
  proof (cases "fmlookup env ''error''")
    case None
    with absent show ?thesis by simp
  next
    case (Some v)
    show ?thesis
    proof (cases "\<exists>d. v = PDict d")
      case True
      with Some object show ?thesis by auto
    next
      case False
      with Some other show ?thesis by simp
    qed
  qed
  with absent object other show ?thesis
    unfolding result by blast
qed

theorem facade_missing_success_outcome_witness:
  "reaches_transport (Resource_get ''r1'')
   \<and> fmlookup (fmap_of_list [(''data'', PDict (fmap_of_list [(''id'', PStr ''r1'')])),
                (''error'', PNone)]) ''success'' = None
   \<and> fst (facade
        (\<lambda>hs req w. (Returns \<lparr> response_status_code = 200, response_json = Some (PDict
            (fmap_of_list [(''data'', PDict (fmap_of_list [(''id'', PStr ''r1'')])),
               (''error'', PNone)])) \<rparr>, w))
        (Resource_get ''r1'')
        (MirraSDK_init () ''key'' default_base_url)) = Inl AttributeError
   \<and> fst (facade
        (\<lambda>hs req w. (Returns \<lparr> response_status_code = 200, response_json = Some (PDict
            (fmap_of_list [(''data'', PDict (fmap_of_list [(''id'', PStr ''r1'')]))])) \<rparr>, w))
        (Resource_get ''r1'')
        (MirraSDK_init () ''key'' default_base_url)) =
      Inl (Raise_MirraError \<lparr> message = PStr ''Unknown error'', code = PNone,
             status_code = Some 200, details = PNone \<rparr>)"
  using
    facade_missing_success_outcome [of "Resource_get ''r1''"
      "\<lambda>hs req w. (Returns \<lparr> response_status_code = 200, response_json = Some (PDict
            (fmap_of_list [(''data'', PDict (fmap_of_list [(''id'', PStr ''r1'')])),
               (''error'', PNone)])) \<rparr>, w)"
      200 "fmap_of_list [(''data'', PDict (fmap_of_list [(''id'', PStr ''r1'')])),
               (''error'', PNone)]"
      "MirraSDK_init () ''key'' default_base_url"]
    facade_missing_success_outcome [of "Resource_get ''r1''"
      "\<lambda>hs req w. (Returns \<lparr> response_status_code = 200, response_json = Some (PDict
            (fmap_of_list [(''data'', PDict (fmap_of_list [(''id'', PStr ''r1'')]))])) \<rparr>, w)"
      200 "fmap_of_list [(''data'', PDict (fmap_of_list [(''id'', PStr ''r1'')]))]"
      "MirraSDK_init () ''key'' default_base_url"]
  by (simp add: reaches_transport_def)

text \<open>What the recording transport keeps of a call.\<close>

lemma request_recorded:
  "pool (session (snd (MirraSDK_request (recording_transport respond) meth path data params self))) =
     pool (session self) @
       [(headers (session self),
         \<lparr> req_method = meth, req_url = base_url self @ path,
           req_json = data, req_params = params \<rparr>)]"
  by (simp add: request_snd recording_transport_def)

lemma recording_fst: "fst (recording_transport respond hs req log) = respond log req"
  by (simp add: recording_transport_def)

text \<open>
  C5. For every facade method: the session is called exactly once, whatever it answers, so
  the record of calls grows by one entry; and when that call raises a
  \<^verbatim>\<open>RequestException\<close> the method raises a \<^verbatim>\<open>MirraError\<close> with a message and without a
  status code.
\<close>

theorem facade_single_attempt:
  assumes "reaches_transport fc"
  shows "(\<exists>entry. pool (session (snd (facade (recording_transport respond) fc self))) =
                    pool (session self) @ [entry])
       \<and> ((\<forall>log req. respond log req = RequestException e) \<longrightarrow>
            fst (facade (recording_transport respond) fc self) =
              Inl (Raise_MirraError
                \<lparr> message = PStr (''Request failed: '' @ e), code = PNone,
                  status_code = None, details = PNone \<rparr>))"
proof -
  from facade_is_request [OF assms] obtain meth path data params
    where eq: "facade (recording_transport respond) fc self =
                 MirraSDK_request (recording_transport respond) meth path data params self"
    by blast
  have "\<exists>entry. pool (session (snd (facade (recording_transport respond) fc self))) =
                    pool (session self) @ [entry]"
    unfolding eq request_recorded by blast
  moreover have "fst (facade (recording_transport respond) fc self) =
              Inl (Raise_MirraError
                \<lparr> message = PStr (''Request failed: '' @ e), code = PNone,
                  status_code = None, details = PNone \<rparr>)"
    if "\<forall>log req. respond log req = RequestException e"
    using that unfolding eq by (simp add: request_fst recording_fst)
  ultimately show ?thesis
    by blast
qed

theorem facade_single_attempt_witness:
  "reaches_transport (Memory_search (PDict (fmap_of_list [(''query'', PStr ''q'')])))
   \<and> length (pool (session (snd (facade
        (recording_transport (\<lambda>log req. RequestException ''Connection refused''))
        (Memory_search (PDict (fmap_of_list [(''query'', PStr ''q'')])))
        (MirraSDK_init [] ''key'' default_base_url))))) = 1
   \<and> fst (facade
        (recording_transport (\<lambda>log req. RequestException ''Connection refused''))
        (Memory_search (PDict (fmap_of_list [(''query'', PStr ''q'')])))
        (MirraSDK_init [] ''key'' default_base_url)) =
      Inl (Raise_MirraError
        \<lparr> message = PStr ''Request failed: Connection refused'', code = PNone,
          status_code = None, details = PNone \<rparr>)"
  using
    facade_single_attempt [of "Memory_search (PDict (fmap_of_list [(''query'', PStr ''q'')]))"
      "\<lambda>log req. RequestException ''Connection refused''"
      "MirraSDK_init [] ''key'' default_base_url" "''Connection refused''"]
  by (auto simp add: reaches_transport_def MirraSDK_init_def)

text \<open>Stripping one character from the right.\<close>

lemma all_same_replicate: "\<forall>x \<in> set xs. x = c \<Longrightarrow> xs = replicate (length xs) c"
  by (induction xs) simp_all

lemma rstrip_decompose: "\<exists>n. s = rstrip [c] s @ replicate n c"
proof -
  let ?P = "\<lambda>x. x \<in> set [c]"
  let ?tail = "rev (takeWhile ?P (rev s))"
  have "rstrip [c] s @ ?tail = rev (takeWhile ?P (rev s) @ dropWhile ?P (rev s))"
    by (simp only: rstrip_def rev_append)
  also have "\<dots> = s"
    by simp
  finally have split: "s = rstrip [c] s @ ?tail"
    by (rule sym)
  have "\<forall>x \<in> set ?tail. x = c"
    by (auto dest: set_takeWhileD)
  then have "?tail = replicate (length ?tail) c"
    by (rule all_same_replicate)
  with split have "s = rstrip [c] s @ replicate (length ?tail) c"
    by simp
  then show ?thesis ..
qed

lemma rstrip_no_trailing: "\<nexists>t. rstrip [c] s = t @ [c]"
proof
  assume "\<exists>t. rstrip [c] s = t @ [c]"
  then obtain t where "rev (dropWhile (\<lambda>x. x \<in> set [c]) (rev s)) = t @ [c]"
    unfolding rstrip_def by blast
  then have "dropWhile (\<lambda>x. x \<in> set [c]) (rev s) = c # rev t"
    by (metis rev_rev_ident rev_append rev.simps(2) rev.simps(1) append_Nil)
  then show False
    by (metis dropWhile_eq_Cons_conv list.set_intros(1))
qed

text \<open>
  C6. For every base URL \<open>b\<close> and path \<open>p\<close>: construction stores \<open>b\<close> without its
  trailing slashes (what is cut off is slashes only, and what is kept does not end in one),
  and the URL of a request is the stored base URL followed by \<open>p\<close>.
\<close>

theorem base_url_stripped:
  "base_url (MirraSDK_init w0 key b) = rstrip ''/'' b
   \<and> (\<exists>n. b = rstrip ''/'' b @ replicate n CHR ''/'')
   \<and> (\<nexists>t. rstrip ''/'' b = t @ ''/'')
   \<and> pool (session (snd (MirraSDK_request (recording_transport respond) meth p data params
                           (MirraSDK_init log0 key b)))) =
       log0 @ [([(''Content-Type'', ''application/json''), (''X-API-Key'', key)],
                \<lparr> req_method = meth, req_url = rstrip ''/'' b @ p,
                  req_json = data, req_params = params \<rparr>)]"
  using rstrip_decompose [of b "CHR ''/''"] rstrip_no_trailing [of "CHR ''/''" b]
  by (simp add: request_recorded) (simp add: MirraSDK_init_def)

theorem base_url_stripped_witness:
  "base_url (MirraSDK_init () ''key'' ''https://x/api/'') = ''https://x/api''
   \<and> pool (session (snd (AgentService_list (recording_transport (\<lambda>log req. RequestException ''offline''))
                           (MirraSDK_init [] ''key'' ''https://x/api/'')))) =
       [([(''Content-Type'', ''application/json''), (''X-API-Key'', ''key'')],
         \<lparr> req_method = ''GET'', req_url = ''https://x/api/agents'',
           req_json = PNone, req_params = PNone \<rparr>)]
   \<and> base_url (MirraSDK_init () ''key'' default_base_url) = ''https://api.fxn.world/api/sdk/v1''"
  using
    base_url_stripped [of "()" "''key''" "''https://x/api/''" "\<lambda>log req. RequestException ''offline''" "''GET''" "''/agents''" PNone PNone "[]"]
    base_url_stripped [of "()" "''key''" default_base_url "\<lambda>log req. RequestException ''offline''" "''GET''" "''/agents''" PNone PNone "[]"]
  by (simp add: AgentService_list_def rstrip_def default_base_url_def)

text \<open>
  C7. For parameters with \<^verbatim>\<open>scriptId\<close> \<open>s\<close>, \<^verbatim>\<open>scripts.invoke\<close> makes exactly one call
  of the session: a POST to \<^verbatim>\<open>/scripts/s/invoke\<close> under the base URL, with the body
  \<^verbatim>\<open>{"payload": v}\<close> for the payload \<open>v\<close> of the parameters and \<^verbatim>\<open>{"payload": null}\<close>
  when they have none.
\<close>

theorem invoke_posts_payload:
  assumes "scriptId params = Some s"
  shows "pool (session (snd (ScriptService_invoke (recording_transport respond) params self))) =
     pool (session self) @
       [(headers (session self),
         \<lparr> req_method = ''POST'', req_url = base_url self @ ''/scripts/'' @ s @ ''/invoke'',
           req_json = PDict (fmupd ''payload''
                        (case payload params of None \<Rightarrow> PNone | Some v \<Rightarrow> v) fmempty),
           req_params = PNone \<rparr>)]"
  using assms by (simp add: ScriptService_invoke_def request_recorded)

theorem invoke_posts_payload_witness:
  "pool (session (snd (ScriptService_invoke (recording_transport (\<lambda>log req. RequestException ''offline''))
       \<lparr> scriptId = Some ''s1'', payload = Some (PDict (fmupd ''x'' (PInt 1) fmempty)) \<rparr>
       (MirraSDK_init [] ''key'' ''https://x/api/'')))) =
     [([(''Content-Type'', ''application/json''), (''X-API-Key'', ''key'')],
       \<lparr> req_method = ''POST'', req_url = ''https://x/api/scripts/s1/invoke'',
         req_json = PDict (fmupd ''payload'' (PDict (fmupd ''x'' (PInt 1) fmempty)) fmempty),
         req_params = PNone \<rparr>)]
   \<and> pool (session (snd (ScriptService_invoke (recording_transport (\<lambda>log req. RequestException ''offline''))
       \<lparr> scriptId = Some ''s1'', payload = None \<rparr>
       (MirraSDK_init [] ''key'' ''https://x/api/'')))) =
     [([(''Content-Type'', ''application/json''), (''X-API-Key'', ''key'')],
       \<lparr> req_method = ''POST'', req_url = ''https://x/api/scripts/s1/invoke'',
         req_json = PDict (fmupd ''payload'' PNone fmempty),
         req_params = PNone \<rparr>)]"
  using
    invoke_posts_payload [of
      "\<lparr> scriptId = Some ''s1'', payload = Some (PDict (fmupd ''x'' (PInt 1) fmempty)) \<rparr>"
      "''s1''" "\<lambda>log req. RequestException ''offline''" "MirraSDK_init [] ''key'' ''https://x/api/''"]
    invoke_posts_payload [of
      "\<lparr> scriptId = Some ''s1'', payload = None \<rparr>"
      "''s1''" "\<lambda>log req. RequestException ''offline''" "MirraSDK_init [] ''key'' ''https://x/api/''"]
  by (simp add: MirraSDK_init_def rstrip_def)

text \<open>
  C10. \<^verbatim>\<open>memory.update(id, updates)\<close> makes one POST to \<^verbatim>\<open>/memory/update\<close> whose body
  is \<open>updates\<close> merged over \<^verbatim>\<open>{"id": id}\<close>: its \<^verbatim>\<open>"id"\<close> is that of \<open>updates\<close> when
  \<open>updates\<close> has one and the argument otherwise, and every other key is as in
  \<open>updates\<close>.
\<close>

theorem memory_update_body:
  "\<exists>body.
     pool (session (snd (MemoryService_update (recording_transport respond) ident updates self))) =
       pool (session self) @
         [(headers (session self),
           \<lparr> req_method = ''POST'', req_url = base_url self @ ''/memory/update'',
             req_json = PDict body, req_params = PNone \<rparr>)]
     \<and> body = fmupd ''id'' (PStr ident) fmempty ++\<^sub>f updates
     \<and> fmlookup body ''id'' =
         Some (case fmlookup updates ''id'' of None \<Rightarrow> PStr ident | Some v \<Rightarrow> v)
     \<and> (\<forall>k. k \<noteq> ''id'' \<longrightarrow> fmlookup body k = fmlookup updates k)"
  by (auto simp add: MemoryService_update_def request_recorded fmlookup_dom_iff
        split: option.splits)

theorem memory_update_body_witness:
  "(\<exists>body.
      pool (session (snd (MemoryService_update (recording_transport (\<lambda>log req. RequestException ''offline'')) ''m1''
          (fmap_of_list [(''id'', PStr ''m2''), (''content'', PStr ''c'')])
          (MirraSDK_init [] ''key'' ''https://x/api/'')))) =
        [([(''Content-Type'', ''application/json''), (''X-API-Key'', ''key'')],
          \<lparr> req_method = ''POST'', req_url = ''https://x/api/memory/update'',
            req_json = PDict body, req_params = PNone \<rparr>)]
      \<and> fmlookup body ''id'' = Some (PStr ''m2'')
      \<and> fmlookup body ''content'' = Some (PStr ''c''))
   \<and> (\<exists>body.
      pool (session (snd (MemoryService_update (recording_transport (\<lambda>log req. RequestException ''offline'')) ''m1''
          (fmap_of_list [(''content'', PStr ''c'')])
          (MirraSDK_init [] ''key'' ''https://x/api/'')))) =
        [([(''Content-Type'', ''application/json''), (''X-API-Key'', ''key'')],
          \<lparr> req_method = ''POST'', req_url = ''https://x/api/memory/update'',
            req_json = PDict body, req_params = PNone \<rparr>)]
      \<and> fmlookup body ''id'' = Some (PStr ''m1'')
      \<and> fmlookup body ''content'' = Some (PStr ''c''))"
  using
    memory_update_body [of "\<lambda>log req. RequestException ''offline''" "''m1''"
      "fmap_of_list [(''id'', PStr ''m2''), (''content'', PStr ''c'')]"
      "MirraSDK_init [] ''key'' ''https://x/api/''"]
    memory_update_body [of "\<lambda>log req. RequestException ''offline''" "''m1''"
      "fmap_of_list [(''content'', PStr ''c'')]"
      "MirraSDK_init [] ''key'' ''https://x/api/''"]
  by (simp add: MirraSDK_init_def rstrip_def)

text \<open>What a call leaves of the client.\<close>

lemma facade_frame:
  "api_key (snd (facade send fc self)) = api_key self
   \<and> base_url (snd (facade send fc self)) = base_url self
   \<and> headers (session (snd (facade send fc self))) = headers (session self)"
proof (cases "reaches_transport fc")
  case True
  from facade_is_request [OF this] obtain meth path data params
    where "facade send fc self = MirraSDK_request send meth path data params self"
    by blast
  then show ?thesis
    by (simp add: request_snd)
next
  case False
  then obtain p where "fc = Script_invoke p" "scriptId p = None"
    by (cases fc) (simp_all add: reaches_transport_def)
  then show ?thesis
    by (simp add: ScriptService_invoke_def)
qed

lemma after_calls_frame:
  "api_key (after_calls send fcs self) = api_key self
   \<and> base_url (after_calls send fcs self) = base_url self
   \<and> headers (session (after_calls send fcs self)) = headers (session self)"
proof (induction fcs arbitrary: self)
  case Nil
  show ?case by (simp add: after_calls_def)
next
  case (Cons fc fcs)
  have "after_calls send (fc # fcs) self = after_calls send fcs (snd (facade send fc self))"
    by (simp add: after_calls_def)
  with Cons.IH [of "snd (facade send fc self)"] facade_frame [of send fc self]
  show ?case by simp
qed

lemma facade_passes_pool_on:
  fixes self :: "'w MirraSDK"
  defines "at \<equiv> \<lambda>w. self\<lparr> session := (session self)\<lparr> pool := w \<rparr> \<rparr>"
  shows "\<exists>req finish. \<forall>send w.
           facade send fc (at w) =
             (if reaches_transport fc
              then (finish (fst (send (headers (session self)) req w)),
                    at (snd (send (headers (session self)) req w)))
              else (Inl (KeyError ''scriptId''), at w))"
proof (cases "reaches_transport fc")
  case True
  from facade_is_request [OF this] obtain meth path data params
    where eq: "\<And>send (self :: 'w MirraSDK).
                 facade send fc self = MirraSDK_request send meth path data params self"
    by blast
  let ?req = "\<lparr> req_method = meth, req_url = base_url self @ path,
                 req_json = data, req_params = params \<rparr>"
  let ?finish = "\<lambda>outcome. case outcome of
        Returns response \<Rightarrow> unwrap_response response
      | RequestException e \<Rightarrow>
          Inl (Raise_MirraError
             \<lparr> message = PStr (''Request failed: '' @ e), code = PNone,
               status_code = None, details = PNone \<rparr>)"
  have "facade send fc (at w) =
          (?finish (fst (send (headers (session self)) ?req w)),
           at (snd (send (headers (session self)) ?req w)))" for send w
    unfolding eq by (rule prod_eqI) (simp_all add: request_fst request_snd at_def)
  with True show ?thesis
    by (intro exI [of _ ?req] exI [of _ ?finish]) simp
next
  case False
  then obtain p where "fc = Script_invoke p" "scriptId p = None"
    by (cases fc) (simp_all add: reaches_transport_def)
  with False show ?thesis
    by (simp add: ScriptService_invoke_def at_def)
qed

text \<open>
  C8. Every facade call, returning or raising, leaves \<^verbatim>\<open>api_key\<close>, \<^verbatim>\<open>base_url\<close> and the
  session headers as they were, so after any sequence of calls they are what the constructor
  set. Of what earlier calls left behind, the internal state of the session, a call makes no
  use of its own: it hands that state to the session once and keeps what comes back, and the
  request it makes and the way it turns the outcome into a result are fixed by the call and
  the configuration.
\<close>

theorem configuration_unchanged:
  "api_key (snd (facade send fc self)) = api_key self
   \<and> base_url (snd (facade send fc self)) = base_url self
   \<and> headers (session (snd (facade send fc self))) = headers (session self)
   \<and> api_key (after_calls send fcs (MirraSDK_init w0 key b)) = key
   \<and> base_url (after_calls send fcs (MirraSDK_init w0 key b)) = rstrip ''/'' b
   \<and> headers (session (after_calls send fcs (MirraSDK_init w0 key b))) =
       [(''Content-Type'', ''application/json''), (''X-API-Key'', key)]
   \<and> (\<exists>req finish. \<forall>send' w.
         facade send' fc (self\<lparr> session := (session self)\<lparr> pool := w \<rparr> \<rparr>) =
           (if reaches_transport fc
            then (finish (fst (send' (headers (session self)) req w)),
                  self\<lparr> session := (session self)
                    \<lparr> pool := snd (send' (headers (session self)) req w) \<rparr> \<rparr>)
            else (Inl (KeyError ''scriptId''),
                  self\<lparr> session := (session self)\<lparr> pool := w \<rparr> \<rparr>)))"
  using facade_frame [of send fc self]
    after_calls_frame [of send fcs "MirraSDK_init w0 key b"]
    facade_passes_pool_on [of fc self]
  by (simp add: MirraSDK_init_def)

theorem configuration_unchanged_witness:
  "api_key (after_calls (recording_transport (\<lambda>log req. RequestException ''offline''))
      [Agent_list, Script_invoke \<lparr> scriptId = None, payload = None \<rparr>, AI_chat PNone]
      (MirraSDK_init [] ''key'' ''https://x/api/'')) = ''key''
   \<and> base_url (after_calls (recording_transport (\<lambda>log req. RequestException ''offline''))
      [Agent_list, Script_invoke \<lparr> scriptId = None, payload = None \<rparr>, AI_chat PNone]
      (MirraSDK_init [] ''key'' ''https://x/api/'')) = ''https://x/api''
   \<and> headers (session (after_calls (recording_transport (\<lambda>log req. RequestException ''offline''))
      [Agent_list, Script_invoke \<lparr> scriptId = None, payload = None \<rparr>, AI_chat PNone]
      (MirraSDK_init [] ''key'' ''https://x/api/''))) =
       [(''Content-Type'', ''application/json''), (''X-API-Key'', ''key'')]"
  using
    configuration_unchanged [of "recording_transport (\<lambda>log req. RequestException ''offline'')"
      Agent_list "MirraSDK_init [] ''key'' ''https://x/api/''"
      "[Agent_list, Script_invoke \<lparr> scriptId = None, payload = None \<rparr>, AI_chat PNone]"
      "[]" "''key''" "''https://x/api/''"]
  by (simp add: rstrip_def)

end
